theory Spec2Isabelle
  imports Complex_Main "HOL-Library.Multiset"
begin

section \<open>Numbers, errors and text\<close>

text \<open>
  The two reporting scripts read numbers from JSON and only compare, add, subtract and
  divide them. A number is modelled by its exact value, a rational: every finite Python
  float and every Python int is one, and Python compares an int with a float by exact
  value. Rounding of float arithmetic is not part of the model. Counts (test files,
  flaky tests) are integers. Text is a list of characters; the two glyphs the scripts
  print are the bytes of their UTF-8 encoding.
\<close>

type_synonym num = rat

datatype py_error =
    FileNotFoundError
  | JSONDecodeError
  | KeyError string
  | IndexError
  | ValueError
  | ZeroDivisionError
  | ImportError

text \<open>
  A JSON object is a record of optional fields: \<open>None\<close> is an absent key.
  \<^verbatim>\<open>d[key]\<close> raises on an absent key, \<^verbatim>\<open>d.get(key, default)\<close> falls back.
\<close>

definition subscript :: "string \<Rightarrow> 'a option \<Rightarrow> py_error + 'a" where
  "subscript key field = (case field of None \<Rightarrow> Inl (KeyError key) | Some v \<Rightarrow> Inr v)"

definition get_or :: "'a option \<Rightarrow> 'a \<Rightarrow> 'a" where
  "get_or field dflt = (case field of None \<Rightarrow> dflt | Some v \<Rightarrow> v)"

text \<open>Sequencing of steps that may raise: the first error ends the computation.\<close>

definition and_then :: "py_error + 'a \<Rightarrow> ('a \<Rightarrow> py_error + 'b) \<Rightarrow> py_error + 'b" where
  "and_then m f = (case m of Inl e \<Rightarrow> Inl e | Inr v \<Rightarrow> f v)"

text \<open>A list comprehension whose element expression may raise.\<close>

fun comprehension :: "('a \<Rightarrow> py_error + 'b) \<Rightarrow> 'a list \<Rightarrow> py_error + 'b list" where
  "comprehension f [] = Inr []"
| "comprehension f (x # xs) =
     (case f x of
        Inl e \<Rightarrow> Inl e
      | Inr y \<Rightarrow> (case comprehension f xs of Inl e \<Rightarrow> Inl e | Inr ys \<Rightarrow> Inr (y # ys)))"

text \<open>
  Slices and indices counted from the end: \<^verbatim>\<open>xs[-n:]\<close> for a positive \<open>n\<close> keeps the
  last \<open>n\<close> elements, or all of them when there are fewer; \<^verbatim>\<open>xs[-k]\<close> for a positive
  \<open>k\<close> raises when the list has fewer than \<open>k\<close> elements.
\<close>

definition slice_last :: "nat \<Rightarrow> 'a list \<Rightarrow> 'a list" where
  "slice_last n xs = drop (length xs - n) xs"

definition index_from_end :: "'a list \<Rightarrow> nat \<Rightarrow> py_error + 'a" where
  "index_from_end xs k =
     (if 1 \<le> k \<and> k \<le> length xs then Inr (xs ! (length xs - k)) else Inl IndexError)"

definition true_div :: "num \<Rightarrow> nat \<Rightarrow> py_error + num" where
  "true_div s n = (if n = 0 then Inl ZeroDivisionError else Inr (s / of_nat n))"

definition py_max :: "int list \<Rightarrow> py_error + int" where
  "py_max xs = (case xs of [] \<Rightarrow> Inl ValueError | x # rest \<Rightarrow> Inr (fold max rest x))"

subsection \<open>Rendering numbers\<close>

definition digit_char :: "nat \<Rightarrow> char" where
  "digit_char d = ''0123456789'' ! d"

fun str_nat :: "nat \<Rightarrow> string" where
  "str_nat n =
     (if n < 10 then [digit_char n] else str_nat (n div 10) @ [digit_char (n mod 10)])"

declare str_nat.simps [simp del]

text \<open>\<^verbatim>\<open>str(i)\<close>, which is also what \<^verbatim>\<open>{i}\<close> puts into an f-string.\<close>

definition str_int :: "int \<Rightarrow> string" where
  "str_int i = (if i < 0 then CHR ''-'' # str_nat (nat (- i)) else str_nat (nat i))"

definition round_half_even :: "num \<Rightarrow> int" where
  "round_half_even x =
     (let f = \<lfloor>x\<rfloor>; d = x - of_int f
      in if d < 1 / 2 then f
         else if 1 / 2 < d then f + 1
         else if even f then f else f + 1)"

definition zfill :: "nat \<Rightarrow> string \<Rightarrow> string" where
  "zfill width s = replicate (width - length s) CHR ''0'' @ s"

text \<open>
  The format specifications \<^verbatim>\<open>.1f\<close>, \<^verbatim>\<open>+.1f\<close> and \<^verbatim>\<open>.3f\<close>: fixed point with \<open>p\<close>
  digits after the point, correctly rounded (ties to even), the sign taken from the
  value before rounding.
\<close>

definition format_f :: "bool \<Rightarrow> nat \<Rightarrow> num \<Rightarrow> string" where
  "format_f force_sign p x =
     (let n = nat (round_half_even (\<bar>x\<bar> * 10 ^ p));
          sign = (if x < 0 then ''-'' else if force_sign then ''+'' else '''')
      in sign @ str_nat (n div 10 ^ p) @
         (if p = 0 then '''' else ''.'' @ zfill p (str_nat (n mod 10 ^ p))))"

subsection \<open>Text helpers\<close>

definition nl :: string where
  "nl = [CHR 0x0A]"

definition warning_glyph :: string where
  "warning_glyph = [CHR 0xE2, CHR 0x9A, CHR 0xA0, CHR 0xEF, CHR 0xB8, CHR 0x8F]"

definition chart_down_glyph :: string where
  "chart_down_glyph = [CHR 0xF0, CHR 0x9F, CHR 0x93, CHR 0x89]"

text \<open>\<^verbatim>\<open>s.replace(old, new)\<close>: every occurrence, left to right, without overlap.\<close>

function replace :: "string \<Rightarrow> string \<Rightarrow> string \<Rightarrow> string" where
  "replace old new s =
     (if old = [] then new @ concat (map (\<lambda>c. c # new) s)
      else if s = [] then []
      else if take (length old) s = old then new @ replace old new (drop (length old) s)
      else hd s # replace old new (tl s))"
  by pat_completeness auto
termination
  by (relation "measure (\<lambda>(old, new, s). length s)") (auto simp: neq_Nil_conv)

declare replace.simps [simp del]

text \<open>\<^verbatim>\<open>os.path.join(a, b)\<close> for a relative second component.\<close>

definition path_join :: "string \<Rightarrow> string \<Rightarrow> string" where
  "path_join a b =
     (if a = [] then b else if last a = CHR ''/'' then a @ b else a @ ''/'' @ b)"

section \<open>The environment of a run\<close>

text \<open>
  A run reads and writes a file system and prints lines. Directories are a set of
  paths, files a map from paths to contents, the standard output a list of lines.
  Reading a file that does not exist raises; creating a directory and writing a file
  succeed (a full disk, missing permissions or a file in a directory's place are not
  modelled).
\<close>

record world =
  dirs :: "string set"
  files :: "string \<rightharpoonup> string"
  stdout :: "string list"

definition print :: "string \<Rightarrow> world \<Rightarrow> world" where
  "print line w = w\<lparr>stdout := stdout w @ [line]\<rparr>"

definition open_read :: "world \<Rightarrow> string \<Rightarrow> py_error + string" where
  "open_read w path = (case files w path of None \<Rightarrow> Inl FileNotFoundError | Some text \<Rightarrow> Inr text)"

definition write_file :: "string \<Rightarrow> string \<Rightarrow> world \<Rightarrow> world" where
  "write_file path text w = w\<lparr>files := (files w)(path \<mapsto> text)\<rparr>"

text \<open>
  \<^verbatim>\<open>Path(p).mkdir(parents=True, exist_ok=True)\<close>: afterwards the directory and each of
  its ancestors (the path cut before a separator) exist; directories that existed stay.
\<close>

definition ancestors :: "string \<Rightarrow> string list" where
  "ancestors p = map (\<lambda>i. take i p) (filter (\<lambda>i. 0 < i \<and> p ! i = CHR ''/'') [0..<length p])"

definition mkdir_parents :: "string \<Rightarrow> world \<Rightarrow> world" where
  "mkdir_parents p w = w\<lparr>dirs := dirs w \<union> set (p # ancestors p)\<rparr>"

section \<open>Trend history\<close>

text \<open>One element of the trend history file; only \<open>timestamp\<close> is read without a default.\<close>

record trend_point =
  tp_timestamp :: "string option"
  tp_coverage :: "num option"
  tp_quality_score :: "num option"
  tp_test_count :: "int option"
  tp_flaky_count :: "int option"

type_synonym datetime = int

text \<open>
  What a run is given from outside the two scripts: whether the import of matplotlib
  succeeds, \<^verbatim>\<open>json.load\<close> on the text of a trend file (\<open>None\<close> when the text is not
  JSON), \<^verbatim>\<open>datetime.fromisoformat\<close> (\<open>None\<close> when it raises), the matplotlib calls of
  lines 36 to 88 (the bytes they save for the four series, or the error one of them
  raises), and the formatted local time.
\<close>

record env =
  has_matplotlib :: bool
  json_load_trends :: "string \<Rightarrow> trend_point list option"
  fromisoformat :: "string \<Rightarrow> datetime option"
  plot_figure ::
    "datetime list \<Rightarrow> num list \<Rightarrow> num list \<Rightarrow> int list \<Rightarrow> int list \<Rightarrow> py_error + string"
  now :: string

definition json_load :: "env \<Rightarrow> string \<Rightarrow> py_error + trend_point list" where
  "json_load env text =
     (case json_load_trends env text of None \<Rightarrow> Inl JSONDecodeError | Some trends \<Rightarrow> Inr trends)"

section \<open>Trend Visualizer and Summarizer\<close>

subsection \<open>\<^verbatim>\<open>generate_summary_stats\<close>\<close>

text \<open>\<^verbatim>\<open>recent = trends[-7:]\<close>\<close>

definition recent :: "trend_point list \<Rightarrow> trend_point list" where
  "recent trends = slice_last 7 trends"

definition avg_coverage :: "trend_point list \<Rightarrow> py_error + num" where
  "avg_coverage trends =
     true_div (sum_list (map (\<lambda>t. get_or (tp_coverage t) 0) (recent trends)))
       (length (recent trends))"

definition avg_quality :: "trend_point list \<Rightarrow> py_error + num" where
  "avg_quality trends =
     true_div (sum_list (map (\<lambda>t. get_or (tp_quality_score t) 0) (recent trends)))
       (length (recent trends))"

definition max_flaky :: "trend_point list \<Rightarrow> py_error + int" where
  "max_flaky trends = py_max (map (\<lambda>t. get_or (tp_flaky_count t) 0) (recent trends))"

definition coverage_trend :: "trend_point list \<Rightarrow> py_error + num" where
  "coverage_trend trends =
     and_then (index_from_end trends 1) (\<lambda>t1.
     and_then (index_from_end trends 2) (\<lambda>t2.
       Inr (get_or (tp_coverage t1) 0 - get_or (tp_coverage t2) 0)))"

definition quality_trend :: "trend_point list \<Rightarrow> py_error + num" where
  "quality_trend trends =
     and_then (index_from_end trends 1) (\<lambda>t1.
     and_then (index_from_end trends 2) (\<lambda>t2.
       Inr (get_or (tp_quality_score t1) 0 - get_or (tp_quality_score t2) 0)))"

text \<open>The f-string that starts the report, one list element per line.\<close>

definition summary_head ::
  "string \<Rightarrow> num \<Rightarrow> num \<Rightarrow> int \<Rightarrow> num \<Rightarrow> num \<Rightarrow> trend_point \<Rightarrow> string" where
  "summary_head generated avg_cov avg_qual max_fl cov_trend qual_trend latest =
     concat (map (\<lambda>line. line @ nl)
       [''# Test Quality Summary Report'',
        '''',
        ''Generated: '' @ generated,
        '''',
        ''## 7-Day Averages'',
        ''- **Average Coverage**: '' @ format_f False 1 avg_cov @ ''%'',
        ''- **Average Quality Score**: '' @ format_f False 1 avg_qual @ ''/100'',
        ''- **Maximum Flaky Tests**: '' @ str_int max_fl,
        '''',
        ''## Recent Trends'',
        ''- **Coverage Change**: '' @ format_f True 1 cov_trend @ ''%'',
        ''- **Quality Score Change**: '' @ format_f True 1 qual_trend,
        '''',
        ''## Current Status'',
        ''- **Latest Coverage**: '' @ format_f False 1 (get_or (tp_coverage latest) 0) @ ''%'',
        ''- **Latest Quality Score**: '' @
           format_f False 1 (get_or (tp_quality_score latest) 0) @ ''/100'',
        ''- **Latest Flaky Tests**: '' @ str_int (get_or (tp_flaky_count latest) 0),
        '''',
        ''## Recommendations''])"

definition fix_flaky_line :: "int \<Rightarrow> string" where
  "fix_flaky_line n = ''- '' @ warning_glyph @ '' Fix '' @ str_int n @ '' flaky tests'' @ nl"

text \<open>The lines the five \<^verbatim>\<open>if\<close> statements append to the report, in their order.\<close>

definition recommendations :: "num \<Rightarrow> num \<Rightarrow> int \<Rightarrow> num \<Rightarrow> num \<Rightarrow> string list" where
  "recommendations avg_cov avg_qual max_fl cov_trend qual_trend =
     (if avg_cov < 70
      then [''- '' @ warning_glyph @ '' Coverage is below recommended threshold (70%)'' @ nl]
      else []) @
     (if avg_qual < 60
      then [''- '' @ warning_glyph @ '' Quality score is below recommended threshold (60)'' @ nl]
      else []) @
     (if max_fl > 0 then [fix_flaky_line max_fl] else []) @
     (if cov_trend < - 5
      then [''- '' @ chart_down_glyph @ '' Coverage is declining rapidly'' @ nl]
      else []) @
     (if qual_trend < - 10
      then [''- '' @ chart_down_glyph @ '' Quality score is declining rapidly'' @ nl]
      else [])"

text \<open>The report text, for a history of at least two points.\<close>

definition summary_text :: "string \<Rightarrow> trend_point list \<Rightarrow> py_error + string" where
  "summary_text generated trends =
     and_then (avg_coverage trends) (\<lambda>avg_cov.
     and_then (avg_quality trends) (\<lambda>avg_qual.
     and_then (max_flaky trends) (\<lambda>max_fl.
     and_then (coverage_trend trends) (\<lambda>cov_trend.
     and_then (quality_trend trends) (\<lambda>qual_trend.
     and_then (index_from_end trends 1) (\<lambda>latest.
       Inr (summary_head generated avg_cov avg_qual max_fl cov_trend qual_trend latest @
            concat (recommendations avg_cov avg_qual max_fl cov_trend qual_trend))))))))"

definition summary_file :: "string \<Rightarrow> string" where
  "summary_file output_dir = path_join output_dir ''test_quality_summary.md''"

definition generate_summary_stats ::
  "env \<Rightarrow> trend_point list \<Rightarrow> string \<Rightarrow> world \<Rightarrow> (py_error + unit) \<times> world" where
  "generate_summary_stats env trends output_dir w =
     (if length trends < 2 then (Inr (), w)
      else
        (case summary_text (now env) trends of
           Inl e \<Rightarrow> (Inl e, w)
         | Inr summary \<Rightarrow>
             (Inr (),
              print (''Summary report saved to: '' @ summary_file output_dir)
                (write_file (summary_file output_dir) summary w))))"

subsection \<open>\<^verbatim>\<open>visualize_trends\<close>\<close>

definition parse_timestamp :: "env \<Rightarrow> trend_point \<Rightarrow> py_error + datetime" where
  "parse_timestamp env t =
     and_then (subscript ''timestamp'' (tp_timestamp t)) (\<lambda>s.
       (case fromisoformat env (replace ''Z'' ''+00:00'' s) of
          None \<Rightarrow> Inl ValueError
        | Some d \<Rightarrow> Inr d))"

definition chart_file :: "string \<Rightarrow> string" where
  "chart_file output_dir = path_join output_dir ''test_quality_trends.png''"

definition visualize_trends ::
  "env \<Rightarrow> string \<Rightarrow> string \<Rightarrow> world \<Rightarrow> (py_error + unit) \<times> world" where
  "visualize_trends env trend_file output_dir w =
     (let w1 = mkdir_parents output_dir w in
      case and_then (open_read w1 trend_file) (json_load env) of
        Inl e \<Rightarrow> (Inl e, w1)
      | Inr trends \<Rightarrow>
          if trends = [] then (Inr (), print ''No trend data available'' w1)
          else
            (case comprehension (parse_timestamp env) trends of
               Inl e \<Rightarrow> (Inl e, w1)
             | Inr timestamps \<Rightarrow>
                 let coverage = map (\<lambda>t. get_or (tp_coverage t) 0) trends;
                     quality_scores = map (\<lambda>t. get_or (tp_quality_score t) 0) trends;
                     test_counts = map (\<lambda>t. get_or (tp_test_count t) 0) trends;
                     flaky_counts = map (\<lambda>t. get_or (tp_flaky_count t) 0) trends
                 in
                   (case plot_figure env timestamps coverage quality_scores test_counts
                           flaky_counts of
                      Inl e \<Rightarrow> (Inl e, w1)
                    | Inr png \<Rightarrow>
                        let w2 = write_file (chart_file output_dir) png w1;
                            w3 = print (''Trend visualization saved to: '' @
                                          chart_file output_dir) w2
                        in generate_summary_stats env trends output_dir w3)))"

subsection \<open>The script, from its imports to the end of the main block\<close>

datatype exit = Finished | SysExit int | Traceback py_error

definition usage_visualize :: string where
  "usage_visualize = ''Usage: visualize_test_trends.py <trend_file> [output_dir]''"

text \<open>The body of the handler \<^verbatim>\<open>except ImportError\<close>.\<close>

definition text_summary_only ::
  "env \<Rightarrow> string \<Rightarrow> string \<Rightarrow> world \<Rightarrow> (py_error + unit) \<times> world" where
  "text_summary_only env trend_file output_dir w =
     (let w1 = print ''Generating text summary only...''
                 (print ''Warning: matplotlib not installed. Install with: pip install matplotlib''
                    w)
      in case and_then (open_read w1 trend_file) (json_load env) of
           Inl e \<Rightarrow> (Inl e, w1)
         | Inr trends \<Rightarrow>
             if trends \<noteq> [] then generate_summary_stats env trends output_dir w1
             else (Inr (), w1))"

definition finish :: "(py_error + unit) \<times> world \<Rightarrow> exit \<times> world" where
  "finish r = (case r of (Inl e, w) \<Rightarrow> (Traceback e, w) | (Inr u, w) \<Rightarrow> (Finished, w))"

text \<open>
  The module's statements in order: the imports of lines 6 to 12 (of which only the
  two of matplotlib can fail), then the main block. \<open>argv\<close> is \<^verbatim>\<open>sys.argv\<close>.
\<close>

definition visualize_test_trends :: "env \<Rightarrow> string list \<Rightarrow> world \<Rightarrow> exit \<times> world" where
  "visualize_test_trends env argv w =
     (if \<not> has_matplotlib env then (Traceback ImportError, w)
      else if length argv < 2 then (SysExit 1, print usage_visualize w)
      else
        (let trend_file = argv ! 1;
             output_dir = (if length argv > 2 then argv ! 2 else ''test_metrics/visualizations'')
         in case visualize_trends env trend_file output_dir w of
              (Inl ImportError, w1) \<Rightarrow> finish (text_summary_only env trend_file output_dir w1)
            | r \<Rightarrow> finish r))"

section \<open>Metrics snapshot\<close>

text \<open>
  The metrics file, one record per JSON object. Every field is optional in the file;
  the renderer decides which absences it tolerates.
\<close>

record package =
  pkg_package :: "string option"
  pkg_coverage :: "num option"
  pkg_test_files :: "int option"
  pkg_error :: "bool option"

record coverage_metrics =
  cov_average :: "num option"
  cov_by_package :: "package list option"

record quality_metrics =
  qs_overall :: "num option"

record test_types =
  unit_test_files :: "int option"
  integration_test_files :: "int option"
  e2e_test_files :: "int option"
  benchmark_files :: "int option"
  example_files :: "int option"
  total_test_files :: "int option"

record flaky_test =
  ft_test :: "string option"
  ft_package :: "string option"

record flakiness =
  flaky_test_count :: "int option"
  flaky_tests :: "flaky_test list option"

record slow_test =
  st_name :: "string option"
  st_package :: "string option"
  st_duration :: "num option"

record execution_time =
  slowest_tests :: "slow_test list option"

record metrics =
  m_coverage :: "coverage_metrics option"
  m_quality_score :: "quality_metrics option"
  m_test_types :: "test_types option"
  m_flakiness :: "flakiness option"
  m_execution_time :: "execution_time option"

record metrics_file =
  mf_metrics :: "metrics option"

text \<open>
  What the Dashboard Renderer is given from outside: \<^verbatim>\<open>json.load\<close> on the text of
  the metrics file, \<^verbatim>\<open>json.dumps\<close> on a list of labels and on a list of numbers, and
  the fixed markup of the HTML template, \<open>markup k\<close> being the stretch of template text
  in front of replacement field \<open>k\<close> (the last stretch follows the last field).
\<close>

record renderer =
  json_load_metrics :: "string \<Rightarrow> metrics_file option"
  dumps_labels :: "string list \<Rightarrow> string"
  dumps_numbers :: "num list \<Rightarrow> string"
  markup :: "nat \<Rightarrow> string"

section \<open>Dashboard Renderer\<close>

definition dq :: string where
  "dq = [CHR 0x22]"

definition repo_prefix :: string where
  "repo_prefix = ''github.com/bebsworthy/qualhook/''"

definition text_lines :: "string list \<Rightarrow> string" where
  "text_lines ls = concat (map (\<lambda>l. l @ nl) ls)"

subsection \<open>\<^verbatim>\<open>get_score_color\<close> and \<^verbatim>\<open>get_flaky_class\<close>\<close>

definition get_score_color :: "num \<Rightarrow> string" where
  "get_score_color score =
     (if score \<ge> 80 then ''#4caf50''
      else if score \<ge> 60 then ''#ff9800''
      else ''#f44336'')"

definition get_flaky_class :: "int \<Rightarrow> string" where
  "get_flaky_class cnt =
     (if cnt = 0 then ''success''
      else if cnt \<le> 2 then ''warning''
      else ''error'')"

subsection \<open>\<^verbatim>\<open>generate_package_rows\<close>\<close>

text \<open>
  \<^verbatim>\<open>sorted(packages, key=lambda x: x['coverage'], reverse=True)\<close>: the keys are
  computed first, for every package, and the sort is stable, also when reversed
  (packages of equal coverage keep their order).
\<close>

definition sorted_by_coverage :: "package list \<Rightarrow> py_error + package list" where
  "sorted_by_coverage packages =
     and_then (comprehension (\<lambda>x. subscript ''coverage'' (pkg_coverage x)) packages) (\<lambda>keys.
       Inr (map snd (rev (sort_key fst (rev (zip keys packages))))))"

definition top_packages :: "package list \<Rightarrow> py_error + package list" where
  "top_packages packages = and_then (sorted_by_coverage packages) (\<lambda>s. Inr (take 10 s))"

text \<open>The body of the loop: one table row.\<close>

definition package_row :: "package \<Rightarrow> py_error + string" where
  "package_row pkg =
     and_then (subscript ''coverage'' (pkg_coverage pkg)) (\<lambda>coverage.
       let color = get_score_color coverage;
           error_indicator = (if get_or (pkg_error pkg) False then '' '' @ warning_glyph else '''')
       in
     and_then (subscript ''package'' (pkg_package pkg)) (\<lambda>name.
     and_then (subscript ''test_files'' (pkg_test_files pkg)) (\<lambda>test_files.
       Inr (nl @
            ''            <tr>'' @ nl @
            ''                <td>'' @ replace repo_prefix '''' name @ ''</td>'' @ nl @
            ''                <td style='' @ dq @ ''color: '' @ color @ dq @ ''>'' @
               format_f False 1 coverage @ ''%'' @ error_indicator @ ''</td>'' @ nl @
            ''                <td>'' @ str_int test_files @ ''</td>'' @ nl @
            ''            </tr>'' @ nl @
            ''        ''))))"

text \<open>The list \<^verbatim>\<open>rows\<close> when the loop ends.\<close>

definition package_rows :: "package list \<Rightarrow> py_error + string list" where
  "package_rows packages = and_then (top_packages packages) (comprehension package_row)"

definition generate_package_rows :: "package list \<Rightarrow> py_error + string" where
  "generate_package_rows packages = and_then (package_rows packages) (\<lambda>rows. Inr (concat rows))"

subsection \<open>\<^verbatim>\<open>generate_test_type_rows\<close>\<close>

definition test_type_row :: "string \<times> int \<Rightarrow> string" where
  "test_type_row r =
     nl @
     ''            <tr>'' @ nl @
     ''                <td>'' @ fst r @ ''</td>'' @ nl @
     ''                <td>'' @ str_int (snd r) @ ''</td>'' @ nl @
     ''            </tr>'' @ nl @
     ''        ''"

definition generate_test_type_rows :: "test_types \<Rightarrow> py_error + string" where
  "generate_test_type_rows tt =
     and_then (subscript ''unit_test_files'' (unit_test_files tt)) (\<lambda>unit.
     and_then (subscript ''integration_test_files'' (integration_test_files tt)) (\<lambda>integration.
     and_then (subscript ''e2e_test_files'' (e2e_test_files tt)) (\<lambda>e2e.
     and_then (subscript ''benchmark_files'' (benchmark_files tt)) (\<lambda>benchmarks.
     and_then (subscript ''example_files'' (example_files tt)) (\<lambda>examples.
       Inr (concat (map test_type_row
         [(''Unit Tests'', unit), (''Integration Tests'', integration), (''E2E Tests'', e2e),
          (''Benchmarks'', benchmarks), (''Examples'', examples)])))))))"

subsection \<open>\<^verbatim>\<open>generate_flaky_tests_section\<close>\<close>

definition flaky_test_row :: "flaky_test \<Rightarrow> py_error + string" where
  "flaky_test_row test =
     and_then (subscript ''test'' (ft_test test)) (\<lambda>name.
     and_then (subscript ''package'' (ft_package test)) (\<lambda>pkg.
       Inr (nl @
            ''            <tr>'' @ nl @
            ''                <td>'' @ name @ ''</td>'' @ nl @
            ''                <td>'' @ replace repo_prefix '''' pkg @ ''</td>'' @ nl @
            ''            </tr>'' @ nl @
            ''        '')))"

definition generate_flaky_tests_section :: "flakiness \<Rightarrow> py_error + string" where
  "generate_flaky_tests_section fl =
     and_then (subscript ''flaky_test_count'' (flaky_test_count fl)) (\<lambda>cnt.
       if cnt = 0 then Inr ''''
       else
         and_then (subscript ''flaky_tests'' (flaky_tests fl)) (\<lambda>tests.
         and_then (comprehension flaky_test_row (take 10 tests)) (\<lambda>rows.
           Inr (nl @
                text_lines
                  [''        <div class='' @ dq @ ''details'' @ dq @ ''>'',
                   ''            <h3>Flaky Tests</h3>'',
                   ''            <table>'',
                   ''                <thead>'',
                   ''                    <tr>'',
                   ''                        <th>Test</th>'',
                   ''                        <th>Package</th>'',
                   ''                    </tr>'',
                   ''                </thead>'',
                   ''                <tbody>''] @
                ''                    '' @ concat rows @ nl @
                text_lines
                  [''                </tbody>'',
                   ''            </table>'',
                   ''        </div>''] @
                ''    ''))))"

subsection \<open>\<^verbatim>\<open>generate_slow_tests_section\<close>\<close>

definition slow_test_row :: "slow_test \<Rightarrow> py_error + string" where
  "slow_test_row test =
     and_then (subscript ''duration'' (st_duration test)) (\<lambda>duration.
       let color = (if duration > 1 then ''#f44336''
                    else if duration > 1 / 2 then ''#ff9800'' else ''#4caf50'')
       in
     and_then (subscript ''name'' (st_name test)) (\<lambda>name.
     and_then (subscript ''package'' (st_package test)) (\<lambda>pkg.
       Inr (nl @
            ''            <tr>'' @ nl @
            ''                <td>'' @ name @ ''</td>'' @ nl @
            ''                <td>'' @ replace repo_prefix '''' pkg @ ''</td>'' @ nl @
            ''                <td style='' @ dq @ ''color: '' @ color @ dq @ ''>'' @
               format_f False 3 duration @ ''s</td>'' @ nl @
            ''            </tr>'' @ nl @
            ''        ''))))"

definition generate_slow_tests_section :: "execution_time \<Rightarrow> py_error + string" where
  "generate_slow_tests_section et =
     (let slowest = get_or (slowest_tests et) [] in
      if slowest = [] then Inr ''''
      else
        and_then (comprehension slow_test_row (take 10 slowest)) (\<lambda>rows.
          Inr (nl @
               text_lines
                 [''        <div class='' @ dq @ ''details'' @ dq @ ''>'',
                  ''            <h3>Slowest Tests</h3>'',
                  ''            <table>'',
                  ''                <thead>'',
                  ''                    <tr>'',
                  ''                        <th>Test</th>'',
                  ''                        <th>Package</th>'',
                  ''                        <th>Duration</th>'',
                  ''                    </tr>'',
                  ''                </thead>'',
                  ''                <tbody>''] @
               ''                    '' @ concat rows @ nl @
               text_lines
                 [''                </tbody>'',
                  ''            </table>'',
                  ''        </div>''] @
               ''    '')))"

subsection \<open>\<^verbatim>\<open>generate_dashboard\<close>\<close>

text \<open>\<^verbatim>\<open>metrics['metrics'][section]\<close>\<close>

definition section_of :: "metrics_file \<Rightarrow> string \<Rightarrow> (metrics \<Rightarrow> 'a option) \<Rightarrow> py_error + 'a" where
  "section_of mf key field =
     and_then (subscript ''metrics'' (mf_metrics mf)) (\<lambda>m. subscript key (field m))"

text \<open>The four key metrics of lines 23 to 26.\<close>

definition key_coverage :: "metrics_file \<Rightarrow> py_error + num" where
  "key_coverage mf =
     and_then (section_of mf ''coverage'' m_coverage) (\<lambda>c. subscript ''average'' (cov_average c))"

definition key_quality_score :: "metrics_file \<Rightarrow> py_error + num" where
  "key_quality_score mf =
     and_then (section_of mf ''quality_score'' m_quality_score) (\<lambda>q.
       subscript ''overall'' (qs_overall q))"

definition key_test_count :: "metrics_file \<Rightarrow> py_error + int" where
  "key_test_count mf =
     and_then (section_of mf ''test_types'' m_test_types) (\<lambda>tt.
       subscript ''total_test_files'' (total_test_files tt))"

definition key_flaky_count :: "metrics_file \<Rightarrow> py_error + int" where
  "key_flaky_count mf =
     and_then (section_of mf ''flakiness'' m_flakiness) (\<lambda>fl.
       subscript ''flaky_test_count'' (flaky_test_count fl))"

text \<open>The trend data of lines 29 to 31, over \<^verbatim>\<open>trends[-10:]\<close>.\<close>

definition label_of :: "trend_point \<Rightarrow> py_error + string" where
  "label_of t = and_then (subscript ''timestamp'' (tp_timestamp t)) (\<lambda>s. Inr (take 10 s))"

definition trend_labels :: "trend_point list \<Rightarrow> py_error + string list" where
  "trend_labels trends = comprehension label_of (slice_last 10 trends)"

definition chart_coverage_trend :: "trend_point list \<Rightarrow> num list" where
  "chart_coverage_trend trends = map (\<lambda>t. get_or (tp_coverage t) 0) (slice_last 10 trends)"

definition chart_quality_trend :: "trend_point list \<Rightarrow> num list" where
  "chart_quality_trend trends = map (\<lambda>t. get_or (tp_quality_score t) 0) (slice_last 10 trends)"

text \<open>The template with its replacement fields filled in, from field \<open>k\<close> on.\<close>

fun fill_template :: "(nat \<Rightarrow> string) \<Rightarrow> nat \<Rightarrow> string list \<Rightarrow> string" where
  "fill_template mk k [] = mk k"
| "fill_template mk k (slot # slots) = mk k @ slot @ fill_template mk (Suc k) slots"

text \<open>
  The sixteen replacement fields of the template in the order the f-string evaluates
  them; the first one that raises ends the rendering.
\<close>

definition template_fields ::
  "env \<Rightarrow> renderer \<Rightarrow> metrics_file \<Rightarrow> num \<Rightarrow> num \<Rightarrow> int \<Rightarrow> int \<Rightarrow>
   string list \<Rightarrow> num list \<Rightarrow> num list \<Rightarrow> py_error + string list" where
  "template_fields env rd mf coverage quality_score test_count flaky_count
     labels cov_series qual_series =
     and_then (and_then (section_of mf ''coverage'' m_coverage) (\<lambda>c.
               and_then (subscript ''by_package'' (cov_by_package c)) generate_package_rows))
       (\<lambda>package_part.
     and_then (and_then (section_of mf ''test_types'' m_test_types) generate_test_type_rows)
       (\<lambda>test_type_part.
     and_then (and_then (section_of mf ''flakiness'' m_flakiness) generate_flaky_tests_section)
       (\<lambda>flaky_part.
     and_then (and_then (section_of mf ''execution_time'' m_execution_time)
                 generate_slow_tests_section)
       (\<lambda>slow_part.
         Inr [get_score_color quality_score,
              get_score_color coverage,
              format_f False 1 quality_score,
              format_f False 1 coverage,
              str_int test_count,
              get_flaky_class flaky_count,
              str_int flaky_count,
              package_part,
              test_type_part,
              flaky_part,
              slow_part,
              now env,
              dumps_labels rd labels,
              dumps_numbers rd cov_series,
              dumps_labels rd labels,
              dumps_numbers rd qual_series]))))"

definition load_metrics :: "renderer \<Rightarrow> string \<Rightarrow> py_error + metrics_file" where
  "load_metrics rd text =
     (case json_load_metrics rd text of None \<Rightarrow> Inl JSONDecodeError | Some mf \<Rightarrow> Inr mf)"

definition dashboard_html ::
  "env \<Rightarrow> renderer \<Rightarrow> string \<Rightarrow> string \<Rightarrow> world \<Rightarrow> py_error + string" where
  "dashboard_html env rd metrics_path trend_path w =
     and_then (and_then (open_read w metrics_path) (load_metrics rd)) (\<lambda>mf.
     and_then (and_then (open_read w trend_path) (json_load env)) (\<lambda>trends.
     and_then (key_coverage mf) (\<lambda>coverage.
     and_then (key_quality_score mf) (\<lambda>quality_score.
     and_then (key_test_count mf) (\<lambda>test_count.
     and_then (key_flaky_count mf) (\<lambda>flaky_count.
     and_then (trend_labels trends) (\<lambda>labels.
     and_then (template_fields env rd mf coverage quality_score test_count flaky_count
                 labels (chart_coverage_trend trends) (chart_quality_trend trends)) (\<lambda>slots.
       Inr (fill_template (markup rd) 0 slots)))))))))"


section \<open>Example inputs\<close>

definition point :: "string \<Rightarrow> num \<Rightarrow> num \<Rightarrow> int \<Rightarrow> int \<Rightarrow> trend_point" where
  "point ts c q n f =
     \<lparr>tp_timestamp = Some ts, tp_coverage = Some c, tp_quality_score = Some q,
      tp_test_count = Some n, tp_flaky_count = Some f\<rparr>"

definition two_points :: "trend_point list" where
  "two_points =
     [point ''2024-01-01T00:00:00Z'' 80 50 12 3,
      point ''2024-01-02T00:00:00Z'' 70 55 12 0]"

definition example_env :: env where
  "example_env =
     \<lparr>has_matplotlib = True,
      json_load_trends =
        (\<lambda>text. if text = ''two'' then Some two_points
                else if text = ''[]'' then Some [] else None),
      fromisoformat = (\<lambda>s. Some 0),
      plot_figure = (\<lambda>ts cs qs ns fs. Inr ''PNG''),
      now = ''2024-01-03 10:00:00''\<rparr>"

definition example_world :: world where
  "example_world =
     \<lparr>dirs = {}, files = [''trends.json'' \<mapsto> ''two'', ''empty.json'' \<mapsto> ''[]'',
        ''broken.json'' \<mapsto> ''{''],
      stdout = []\<rparr>"


definition pkg :: "string \<Rightarrow> num \<Rightarrow> int \<Rightarrow> package" where
  "pkg name c n =
     \<lparr>pkg_package = Some name, pkg_coverage = Some c, pkg_test_files = Some n,
      pkg_error = None\<rparr>"

definition three_packages :: "package list" where
  "three_packages =
     [pkg ''github.com/bebsworthy/qualhook/cmd'' 10 1,
      pkg ''github.com/bebsworthy/qualhook/internal/config'' 90 4,
      pkg ''github.com/bebsworthy/qualhook/internal/hook'' 50 2]"

definition twelve_points :: "trend_point list" where
  "twelve_points =
     map (\<lambda>d. point (''2024-01-'' @ d @ ''T06:30:00Z'') 70 60 5 0)
       [''01'', ''02'', ''03'', ''04'', ''05'', ''06'', ''07'', ''08'', ''09'', ''10'', ''11'', ''12'']"

text \<open>The errors that are key-lookup failures.\<close>

definition key_error :: "py_error \<Rightarrow> bool" where
  "key_error e = (case e of KeyError k \<Rightarrow> True | _ \<Rightarrow> False)"




definition twelve_packages :: "package list" where
  "twelve_packages = map (\<lambda>i. pkg ''github.com/bebsworthy/qualhook/pkg'' (of_nat i) 1) [0..<12]"

section \<open>Sequencing, lookups and slices\<close>

lemma and_then_Inr [simp]: "and_then (Inr v) f = f v"
  by (simp add: and_then_def)

lemma and_then_Inl [simp]: "and_then (Inl e) f = Inl e"
  by (simp add: and_then_def)

lemma and_then_Inr_iff: "and_then m f = Inr v \<longleftrightarrow> (\<exists>x. m = Inr x \<and> f x = Inr v)"
  by (cases m) simp_all


lemma subscript_Inr_iff: "subscript key field = Inr v \<longleftrightarrow> field = Some v"
  by (simp add: subscript_def split: option.splits)


lemma comprehension_Inr_iff: "comprehension f xs = Inr ys \<longleftrightarrow> map f xs = map Inr ys"
proof (induction xs arbitrary: ys)
  case Nil
  then show ?case by auto
next
  case (Cons x xs)
  show ?case
  proof (cases "f x")
    case (Inl e)
    then show ?thesis by (cases ys) auto
  next
    case (Inr y)
    show ?thesis
    proof (cases "comprehension f xs")
      case (Inl e)
      have "map f xs \<noteq> map Inr zs" for zs
        using Cons.IH [of zs] Inl by simp
      with Inl Inr show ?thesis by (cases ys) auto
    next
      case inner: (Inr zs)
      with Cons.IH [of zs] have "map f xs = map Inr zs" by simp
      with inner Inr show ?thesis
        by (cases ys) (auto simp: inj_map_eq_map [OF inj_Inr])
    qed
  qed
qed

lemma comprehension_length: "comprehension f xs = Inr ys \<Longrightarrow> length ys = length xs"
  by (metis comprehension_Inr_iff length_map)


lemma comprehension_error:
  "comprehension f xs = Inl e \<Longrightarrow> \<exists>x \<in> set xs. f x = Inl e"
  by (induction xs) (auto split: sum.splits)

lemma comprehension_total:
  "\<forall>x \<in> set xs. \<exists>y. f x = Inr y \<Longrightarrow> \<exists>ys. comprehension f xs = Inr ys"
proof (induction xs)
  case Nil
  then show ?case by simp
next
  case (Cons x xs)
  then obtain y ys where "f x = Inr y" "comprehension f xs = Inr ys" by auto
  then show ?case by simp
qed


lemma slice_last_suffix: "take (length xs - n) xs @ slice_last n xs = xs"
  by (simp add: slice_last_def)

lemma slice_last_all: "length xs \<le> n \<Longrightarrow> slice_last n xs = xs"
  by (simp add: slice_last_def)

lemma slice_last_window:
  assumes "xs = older @ window" "length window = min n (length xs)"
  shows "slice_last n xs = window"
proof (cases "length xs \<le> n")
  case True
  with assms have "older = []" by auto
  with assms True show ?thesis by (simp add: slice_last_def)
next
  case False
  with assms have "length window = n" by auto
  with assms show ?thesis by (simp add: slice_last_def)
qed

lemma index_from_end_last: "xs \<noteq> [] \<Longrightarrow> index_from_end xs (Suc 0) = Inr (last xs)"
  by (simp add: index_from_end_def last_conv_nth Suc_le_eq)

lemma index_from_end_2:
  "2 \<le> length xs \<Longrightarrow> index_from_end xs 2 = Inr (xs ! (length xs - 2))"
  by (simp add: index_from_end_def)

lemma fold_max_eq_Max: "fold max xs (x::int) = Max (set (x # xs))"
  using Max.set_eq_fold [of x xs] by simp

lemma py_max_nonempty: "xs \<noteq> [] \<Longrightarrow> py_max xs = Inr (Max (set xs))"
  by (cases xs) (simp_all add: py_max_def fold_max_eq_Max del: Max_insert)


section \<open>Decimal rendering is injective\<close>

lemma digit_char_inj:
  assumes "a < 10" "b < 10" "digit_char a = digit_char b"
  shows "a = b"
proof -
  have d: "distinct ''0123456789''" by simp
  have "length ''0123456789'' = 10" by simp
  with assms d show ?thesis
    unfolding digit_char_def by (metis nth_eq_iff_index_eq)
qed

lemma digit_char_not_minus: "d < 10 \<Longrightarrow> digit_char d \<noteq> CHR ''-''"
proof -
  assume "d < 10"
  then have "digit_char d \<in> set ''0123456789''"
    unfolding digit_char_def by (intro nth_mem) simp
  then show ?thesis by auto
qed

lemma str_nat_nonempty: "str_nat n \<noteq> []"
  by (subst str_nat.simps) simp

lemma str_nat_small: "n < 10 \<Longrightarrow> str_nat n = [digit_char n]"
  by (subst str_nat.simps) simp

lemma str_nat_large:
  "10 \<le> n \<Longrightarrow> str_nat n = str_nat (n div 10) @ [digit_char (n mod 10)]"
  by (subst str_nat.simps) simp

lemma str_nat_hd_not_minus: "hd (str_nat n) \<noteq> CHR ''-''"
proof (induction n rule: str_nat.induct)
  case (1 n)
  show ?case
  proof (cases "n < 10")
    case True
    then show ?thesis by (simp add: str_nat_small digit_char_not_minus)
  next
    case False
    with 1 show ?thesis by (simp add: str_nat_large str_nat_nonempty)
  qed
qed

lemma str_nat_inj: "str_nat n = str_nat m \<Longrightarrow> n = m"
proof (induction n arbitrary: m rule: str_nat.induct)
  case (1 n)
  show ?case
  proof (cases "n < 10")
    case small_n: True
    show ?thesis
    proof (cases "m < 10")
      case True
      with small_n "1.prems" show ?thesis
        by (simp add: str_nat_small digit_char_inj)
    next
      case False
      with small_n "1.prems" str_nat_nonempty [of "m div 10"] show ?thesis
        by (auto simp: str_nat_small str_nat_large)
    qed
  next
    case large_n: False
    show ?thesis
    proof (cases "m < 10")
      case True
      with large_n "1.prems" str_nat_nonempty [of "n div 10"] show ?thesis
        by (auto simp: str_nat_small str_nat_large)
    next
      case False
      with large_n "1.prems" have eq: "str_nat (n div 10) = str_nat (m div 10)"
        and dg: "digit_char (n mod 10) = digit_char (m mod 10)"
        by (simp_all add: str_nat_large)
      from "1.IH" [OF large_n eq] have "n div 10 = m div 10" .
      moreover from dg have "n mod 10 = m mod 10"
        by (intro digit_char_inj) simp_all
      ultimately show ?thesis
        by (metis div_mult_mod_eq)
    qed
  qed
qed

lemma str_int_inj: "str_int i = str_int j \<Longrightarrow> i = j"
proof -
  assume eq: "str_int i = str_int j"
  have neg: "CHR ''-'' # str_nat a \<noteq> str_nat b" for a b
    using str_nat_hd_not_minus [of b] str_nat_nonempty [of b] by (cases "str_nat b") auto
  show ?thesis
  proof (cases "i < 0")
    case True
    with eq neg show ?thesis
      by (cases "j < 0") (auto simp: str_int_def dest!: str_nat_inj)
  next
    case False
    with eq neg [of "nat (- j)" "nat i"] show ?thesis
      by (cases "j < 0") (auto simp: str_int_def dest!: str_nat_inj)
  qed
qed


section \<open>Dashboard Renderer: colours and classes\<close>

text \<open>
  C3. The shared colour function maps every score at or above 80 to the good colour
  (green), every score from 60 up to but excluding 80 to the warning colour (orange) and
  every score below 60 to the bad colour (red); exactly 80 is good, exactly 60 is warning
  and 59.9 is bad.
\<close>

theorem get_score_color_thresholds:
  "(score \<ge> 80 \<longrightarrow> get_score_color score = ''#4caf50'') \<and>
   (60 \<le> score \<and> score < 80 \<longrightarrow> get_score_color score = ''#ff9800'') \<and>
   (score < 60 \<longrightarrow> get_score_color score = ''#f44336'') \<and>
   get_score_color 80 = ''#4caf50'' \<and>
   get_score_color 60 = ''#ff9800'' \<and>
   get_score_color (599 / 10) = ''#f44336''"
  by (simp add: get_score_color_def)

theorem get_score_color_thresholds_witness:
  "((85::num) \<ge> 80 \<and> get_score_color 85 = ''#4caf50'') \<and>
   (60 \<le> (70::num) \<and> (70::num) < 80 \<and> get_score_color 70 = ''#ff9800'') \<and>
   ((12::num) < 60 \<and> get_score_color 12 = ''#f44336'')"
  using get_score_color_thresholds [of 85] get_score_color_thresholds [of 70]
    get_score_color_thresholds [of 12]
  by simp

text \<open>
  C4. For every integer flaky-test count the CSS class is success for 0, warning for 1
  and 2, and error from 3 upwards.
\<close>

theorem get_flaky_class_boundaries:
  "(cnt = 0 \<longrightarrow> get_flaky_class cnt = ''success'') \<and>
   (1 \<le> cnt \<and> cnt \<le> 2 \<longrightarrow> get_flaky_class cnt = ''warning'') \<and>
   (3 \<le> cnt \<longrightarrow> get_flaky_class cnt = ''error'')"
  by (simp add: get_flaky_class_def)

theorem get_flaky_class_boundaries_witness:
  "get_flaky_class 0 = ''success'' \<and>
   ((1::int) \<le> 2 \<and> (2::int) \<le> 2 \<and> get_flaky_class 2 = ''warning'') \<and>
   ((3::int) \<le> 3 \<and> get_flaky_class 3 = ''error'')"
  using get_flaky_class_boundaries [of 0] get_flaky_class_boundaries [of 2]
    get_flaky_class_boundaries [of 3]
  by simp

section \<open>Dashboard Renderer: the package table\<close>

lemma keys_of_packages:
  "comprehension (\<lambda>x. subscript ''coverage'' (pkg_coverage x)) packages = Inr keys
   \<longleftrightarrow> map pkg_coverage packages = map Some keys"
proof -
  have "map (\<lambda>x. subscript ''coverage'' (pkg_coverage x)) packages = map Inr keys
        \<longleftrightarrow> map pkg_coverage packages = map Some keys"
    by (induction packages arbitrary: keys)
       (auto simp: subscript_Inr_iff Cons_eq_map_conv)
  then show ?thesis by (simp add: comprehension_Inr_iff)
qed

lemma zip_keys_coverage:
  "map pkg_coverage packages = map Some keys \<Longrightarrow>
   \<forall>kp \<in> set (zip keys packages). pkg_coverage (snd kp) = Some (fst kp)"
proof (induction packages arbitrary: keys)
  case Nil
  then show ?case by simp
next
  case (Cons p ps)
  then show ?case by (cases keys) auto
qed

lemma sorted_by_coverage_spec:
  assumes "sorted_by_coverage packages = Inr srt"
  shows "\<exists>covs. mset srt = mset packages \<and> map pkg_coverage srt = map Some covs \<and>
           sorted_wrt (\<ge>) covs"
proof -
  from assms obtain keys where
    keys: "map pkg_coverage packages = map Some keys"
    and srt: "srt = map snd (rev (sort_key fst (rev (zip keys packages))))"
    by (auto simp: sorted_by_coverage_def and_then_Inr_iff keys_of_packages)
  let ?pairs = "rev (sort_key fst (rev (zip keys packages)))"
  from keys have len: "length keys = length packages"
    by (metis length_map)
  have "mset srt = mset (map snd (zip keys packages))"
    unfolding srt by (simp only: mset_map mset_rev mset_sort)
  with len have m: "mset srt = mset packages" by simp
  have "set ?pairs = set (zip keys packages)" by simp
  with zip_keys_coverage [OF keys]
  have "\<forall>kp \<in> set ?pairs. pkg_coverage (snd kp) = Some (fst kp)" by simp
  then have c: "map pkg_coverage srt = map Some (map fst ?pairs)"
    unfolding srt by (simp add: comp_def)
  have "sorted (map fst (sort_key fst (rev (zip keys packages))))"
    by (rule sorted_sort_key)
  then have "sorted_wrt (\<ge>) (rev (map fst (sort_key fst (rev (zip keys packages)))))"
    by (simp add: sorted_wrt_rev)
  then have s: "sorted_wrt (\<ge>) (map fst ?pairs)" by (simp add: rev_map)
  from m c s show ?thesis by blast
qed

lemma package_row_total:
  "pkg_coverage p = Some c \<Longrightarrow> pkg_package p = Some name \<Longrightarrow> pkg_test_files p = Some n \<Longrightarrow>
   \<exists>row. package_row p = Inr row"
  by (simp add: package_row_def subscript_def Let_def)

lemma package_rows_total:
  assumes "list_all (\<lambda>p. pkg_coverage p \<noteq> None \<and> pkg_package p \<noteq> None \<and>
                        pkg_test_files p \<noteq> None) packages"
  shows "\<exists>rows. package_rows packages = Inr rows \<and> length rows = min 10 (length packages)"
proof -
  from assms have all: "\<And>p. p \<in> set packages \<Longrightarrow>
      pkg_coverage p \<noteq> None \<and> pkg_package p \<noteq> None \<and> pkg_test_files p \<noteq> None"
    by (simp add: list_all_iff)
  then have "map pkg_coverage packages = map Some (map (\<lambda>p. the (pkg_coverage p)) packages)"
    by auto
  then have "comprehension (\<lambda>x. subscript ''coverage'' (pkg_coverage x)) packages =
      Inr (map (\<lambda>p. the (pkg_coverage p)) packages)"
    by (simp only: keys_of_packages)
  then obtain srt where srt: "sorted_by_coverage packages = Inr srt"
    by (simp add: sorted_by_coverage_def)
  from sorted_by_coverage_spec [OF srt] have m: "mset srt = mset packages" by blast
  then have "set srt = set packages" and len: "length srt = length packages"
    by (auto dest: mset_eq_setD mset_eq_length)
  with all have "\<forall>p \<in> set (take 10 srt). \<exists>row. package_row p = Inr row"
    by (auto dest!: in_set_takeD intro: package_row_total)
  then obtain rows where rows: "comprehension package_row (take 10 srt) = Inr rows"
    using comprehension_total by blast
  from comprehension_length [OF rows] len have "length rows = min 10 (length packages)"
    by simp
  moreover from srt rows have "package_rows packages = Inr rows"
    by (simp add: package_rows_def top_packages_def)
  ultimately show ?thesis by blast
qed

text \<open>
  C5. Whenever the package table is produced it has at most ten rows, one for each of
  the first ten packages of the list sorted by coverage in descending order (a
  rearrangement of the input); packages with coverage 10, 90, 50 are shown in the order
  90, 50, 10.
\<close>

theorem package_rows_top_ten_descending:
  "package_rows packages = Inr rows \<Longrightarrow>
     length rows \<le> 10 \<and>
     generate_package_rows packages = Inr (concat rows) \<and>
     (\<exists>srt covs. mset srt = mset packages \<and> map pkg_coverage srt = map Some covs \<and>
        sorted_wrt (\<ge>) covs \<and> top_packages packages = Inr (take 10 srt) \<and>
        map package_row (take 10 srt) = map Inr rows) \<and>
     (map pkg_coverage packages = [Some 10, Some 90, Some 50] \<longrightarrow>
        (\<exists>shown. top_packages packages = Inr shown \<and>
           map pkg_coverage shown = [Some 90, Some 50, Some 10] \<and>
           map package_row shown = map Inr rows))"
proof (intro conjI impI)
  assume rows: "package_rows packages = Inr rows"
  then obtain srt where srt: "sorted_by_coverage packages = Inr srt"
    and top: "top_packages packages = Inr (take 10 srt)"
    and each: "comprehension package_row (take 10 srt) = Inr rows"
    by (auto simp: package_rows_def top_packages_def and_then_Inr_iff)
  from each have "length rows = length (take 10 srt)"
    by (rule comprehension_length)
  then show "length rows \<le> 10" by simp
  from rows show "generate_package_rows packages = Inr (concat rows)"
    by (simp add: generate_package_rows_def)
  from each have shown: "map package_row (take 10 srt) = map Inr rows"
    by (simp add: comprehension_Inr_iff)
  from sorted_by_coverage_spec [OF srt] top shown
  show "\<exists>srt covs. mset srt = mset packages \<and> map pkg_coverage srt = map Some covs \<and>
        sorted_wrt (\<ge>) covs \<and> top_packages packages = Inr (take 10 srt) \<and>
        map package_row (take 10 srt) = map Inr rows"
    by blast
  assume cov: "map pkg_coverage packages = [Some 10, Some 90, Some 50]"
  then obtain a b c where abc: "packages = [a, b, c]"
    "pkg_coverage a = Some 10" "pkg_coverage b = Some 90" "pkg_coverage c = Some 50"
    by auto
  then have "sorted_by_coverage packages = Inr [b, c, a]"
    by (simp add: sorted_by_coverage_def subscript_def)
  with srt have "srt = [b, c, a]" by simp
  with top shown abc
  show "\<exists>shown. top_packages packages = Inr shown \<and>
           map pkg_coverage shown = [Some 90, Some 50, Some 10] \<and>
           map package_row shown = map Inr rows"
    by auto
qed

lemma package_row_pkg: "\<exists>row. package_row (pkg name c n) = Inr row"
  by (rule package_row_total [of _ c name n]) (simp_all add: pkg_def)

lemma top_three_packages:
  "top_packages three_packages =
     Inr [pkg ''github.com/bebsworthy/qualhook/internal/config'' 90 4,
          pkg ''github.com/bebsworthy/qualhook/internal/hook'' 50 2,
          pkg ''github.com/bebsworthy/qualhook/cmd'' 10 1]"
proof -
  have "map pkg_coverage three_packages = [Some 10, Some 90, Some 50]"
    by (simp add: three_packages_def pkg_def)
  then have "comprehension (\<lambda>x. subscript ''coverage'' (pkg_coverage x)) three_packages =
      Inr [10, 90, 50]"
    by (simp add: keys_of_packages)
  then show ?thesis
    by (simp add: top_packages_def sorted_by_coverage_def three_packages_def)
qed

lemma package_rows_three: "\<exists>rows. package_rows three_packages = Inr rows"
proof -
  obtain r1 where r1:
    "package_row (pkg ''github.com/bebsworthy/qualhook/internal/config'' 90 4) = Inr r1"
    using package_row_pkg [of "''github.com/bebsworthy/qualhook/internal/config''" 90 4] ..
  obtain r2 where r2:
    "package_row (pkg ''github.com/bebsworthy/qualhook/internal/hook'' 50 2) = Inr r2"
    using package_row_pkg [of "''github.com/bebsworthy/qualhook/internal/hook''" 50 2] ..
  obtain r3 where r3:
    "package_row (pkg ''github.com/bebsworthy/qualhook/cmd'' 10 1) = Inr r3"
    using package_row_pkg [of "''github.com/bebsworthy/qualhook/cmd''" 10 1] ..
  from r1 r2 r3
  have "package_rows three_packages = Inr [r1, r2, r3]"
    by (simp add: package_rows_def top_three_packages)
  then show ?thesis ..
qed

lemma package_rows_twelve: "\<exists>rows. package_rows twelve_packages = Inr rows \<and> length rows = 10"
proof -
  have "list_all (\<lambda>p. pkg_coverage p \<noteq> None \<and> pkg_package p \<noteq> None \<and>
                        pkg_test_files p \<noteq> None) twelve_packages"
    by (simp add: twelve_packages_def list_all_iff pkg_def)
  from package_rows_total [OF this] show ?thesis
    by (simp add: twelve_packages_def)
qed

theorem package_rows_top_ten_descending_witness:
  "(\<exists>rows. package_rows three_packages = Inr rows \<and> length rows \<le> 10 \<and>
      generate_package_rows three_packages = Inr (concat rows)) \<and>
   map pkg_coverage three_packages = [Some 10, Some 90, Some 50] \<and>
   (\<exists>shown. top_packages three_packages = Inr shown \<and>
      map pkg_coverage shown = [Some 90, Some 50, Some 10]) \<and>
   length twelve_packages = 12 \<and>
   (\<exists>rows. package_rows twelve_packages = Inr rows \<and> length rows = 10)"
proof -
  from package_rows_three obtain rows where rows: "package_rows three_packages = Inr rows"
    by blast
  have cov: "map pkg_coverage three_packages = [Some 10, Some 90, Some 50]"
    by (simp add: three_packages_def pkg_def)
  note shown_facts = package_rows_top_ten_descending [OF rows]
  from shown_facts [THEN conjunct2, THEN conjunct2, THEN conjunct2, THEN mp, OF cov]
  obtain shown where "top_packages three_packages = Inr shown"
    "map pkg_coverage shown = [Some 90, Some 50, Some 10]"
    by (elim exE conjE)
  with rows cov shown_facts [THEN conjunct1] shown_facts [THEN conjunct2, THEN conjunct1]
  have "(\<exists>rows. package_rows three_packages = Inr rows \<and> length rows \<le> 10 \<and>
      generate_package_rows three_packages = Inr (concat rows)) \<and>
   map pkg_coverage three_packages = [Some 10, Some 90, Some 50] \<and>
   (\<exists>shown. top_packages three_packages = Inr shown \<and>
      map pkg_coverage shown = [Some 90, Some 50, Some 10])"
    by (intro conjI exI [of _ rows] exI [of _ shown])
  moreover have "length twelve_packages = 12" by (simp add: twelve_packages_def)
  ultimately show ?thesis using package_rows_twelve by simp
qed

section \<open>Dashboard Renderer: the trend charts\<close>

lemma label_of_Inr_iff:
  "label_of t = Inr l \<longleftrightarrow> (\<exists>s. tp_timestamp t = Some s \<and> l = take 10 s)"
  by (cases "tp_timestamp t") (auto simp: label_of_def subscript_def)

lemma labels_of_window_aux:
  "map label_of window = map Inr labels
   \<longleftrightarrow> (\<exists>stamps. map tp_timestamp window = map Some stamps \<and> labels = map (take 10) stamps)"
proof (induction window arbitrary: labels)
  case Nil
  then show ?case by auto
next
  case (Cons t ts)
  show ?case
  proof
    assume "map label_of (t # ts) = map Inr labels"
    then obtain l ls where labels: "labels = l # ls" and l: "label_of t = Inr l"
      and ls: "map label_of ts = map Inr ls"
      by (cases labels) auto
    from l obtain s where s: "tp_timestamp t = Some s" "l = take 10 s"
      by (auto simp: label_of_Inr_iff)
    from ls Cons.IH [of ls] obtain stamps where
      "map tp_timestamp ts = map Some stamps" "ls = map (take 10) stamps"
      by blast
    with s labels have "map tp_timestamp (t # ts) = map Some (s # stamps) \<and>
        labels = map (take 10) (s # stamps)"
      by simp
    then show "\<exists>stamps. map tp_timestamp (t # ts) = map Some stamps \<and>
        labels = map (take 10) stamps" ..
  next
    assume "\<exists>stamps. map tp_timestamp (t # ts) = map Some stamps \<and>
        labels = map (take 10) stamps"
    then obtain stamps where st: "map tp_timestamp (t # ts) = map Some stamps"
      and labels: "labels = map (take 10) stamps"
      by blast
    from st obtain s rest where stamps: "stamps = s # rest" and s: "tp_timestamp t = Some s"
      and rest: "map tp_timestamp ts = map Some rest"
      by (cases stamps) auto
    from rest Cons.IH [of "map (take 10) rest"]
    have "map label_of ts = map Inr (map (take 10) rest)" by blast
    moreover from s have "label_of t = Inr (take 10 s)"
      by (simp add: label_of_Inr_iff)
    ultimately show "map label_of (t # ts) = map Inr labels"
      unfolding labels stamps by simp
  qed
qed

lemma labels_missing_timestamp:
  "list_ex (\<lambda>t. tp_timestamp t = None) window \<Longrightarrow>
   comprehension label_of window = Inl (KeyError ''timestamp'')"
proof (induction window)
  case Nil
  then show ?case by simp
next
  case (Cons t ts)
  show ?case
  proof (cases "tp_timestamp t")
    case None
    then have "label_of t = Inl (KeyError ''timestamp'')"
      by (simp add: label_of_def subscript_def)
    then show ?thesis by simp
  next
    case (Some s)
    with Cons have "comprehension label_of ts = Inl (KeyError ''timestamp'')" by simp
    moreover from Some have "label_of t = Inr (take 10 s)"
      by (simp add: label_of_Inr_iff)
    ultimately show ?thesis by simp
  qed
qed

text \<open>
  C6. The trend charts of the dashboard use the window of the last ten points of the
  history (all of them when there are fewer), in their original order: the two series
  are the coverage and quality score of the window's points, 0 where absent, and the
  labels are the first ten characters of their timestamps. The labels exist exactly when
  every point of the window has a timestamp; otherwise the lookup fails.
\<close>

theorem dashboard_trend_window:
  "trends = older @ window \<Longrightarrow> length window = min 10 (length trends) \<Longrightarrow>
     length window \<le> 10 \<and>
     chart_coverage_trend trends = map (\<lambda>t. get_or (tp_coverage t) 0) window \<and>
     chart_quality_trend trends = map (\<lambda>t. get_or (tp_quality_score t) 0) window \<and>
     (trend_labels trends = Inr labels \<longleftrightarrow>
        (\<exists>stamps. map tp_timestamp window = map Some stamps \<and> labels = map (take 10) stamps)) \<and>
     (list_ex (\<lambda>t. tp_timestamp t = None) window \<longrightarrow>
        trend_labels trends = Inl (KeyError ''timestamp''))"
proof (intro conjI impI)
  assume "trends = older @ window" and len: "length window = min 10 (length trends)"
  then have w: "slice_last 10 trends = window" by (rule slice_last_window)
  from len show "length window \<le> 10" by simp
  show "chart_coverage_trend trends = map (\<lambda>t. get_or (tp_coverage t) 0) window"
    by (simp add: chart_coverage_trend_def w)
  show "chart_quality_trend trends = map (\<lambda>t. get_or (tp_quality_score t) 0) window"
    by (simp add: chart_quality_trend_def w)
  show "trend_labels trends = Inr labels \<longleftrightarrow>
        (\<exists>stamps. map tp_timestamp window = map Some stamps \<and> labels = map (take 10) stamps)"
    unfolding trend_labels_def w comprehension_Inr_iff by (rule labels_of_window_aux)
  assume "list_ex (\<lambda>t. tp_timestamp t = None) window"
  then show "trend_labels trends = Inl (KeyError ''timestamp'')"
    unfolding trend_labels_def w by (rule labels_missing_timestamp)
qed

theorem dashboard_trend_window_witness:
  "twelve_points = take 2 twelve_points @ drop 2 twelve_points \<and>
   length (drop 2 twelve_points) = min 10 (length twelve_points) \<and>
   trend_labels twelve_points =
     Inr [''2024-01-03'', ''2024-01-04'', ''2024-01-05'', ''2024-01-06'', ''2024-01-07'',
          ''2024-01-08'', ''2024-01-09'', ''2024-01-10'', ''2024-01-11'', ''2024-01-12''] \<and>
   chart_coverage_trend twelve_points = replicate 10 70 \<and>
   chart_quality_trend twelve_points = replicate 10 60 \<and>
   trend_labels (twelve_points @ [\<lparr>tp_timestamp = None, tp_coverage = None,
      tp_quality_score = None, tp_test_count = None, tp_flaky_count = None\<rparr>]) =
     Inl (KeyError ''timestamp'')"
proof -
  let ?bad = "\<lparr>tp_timestamp = None, tp_coverage = None,
      tp_quality_score = None, tp_test_count = None, tp_flaky_count = None\<rparr>"
  let ?labels = "[''2024-01-03'', ''2024-01-04'', ''2024-01-05'', ''2024-01-06'', ''2024-01-07'',
          ''2024-01-08'', ''2024-01-09'', ''2024-01-10'', ''2024-01-11'', ''2024-01-12'']"
  have split: "twelve_points = take 2 twelve_points @ drop 2 twelve_points" by simp
  have len: "length (drop 2 twelve_points) = min 10 (length twelve_points)"
    by (simp add: twelve_points_def)
  have split': "twelve_points @ [?bad] = take 3 twelve_points @ (drop 3 twelve_points @ [?bad])"
    by simp
  have len': "length (drop 3 twelve_points @ [?bad]) = min 10 (length (twelve_points @ [?bad]))"
    by (simp add: twelve_points_def)
  have bad: "list_ex (\<lambda>t. tp_timestamp t = None) (drop 3 twelve_points @ [?bad])"
    by simp
  have stamps: "map tp_timestamp (drop 2 twelve_points) =
      map Some (map (\<lambda>d. ''2024-01-'' @ d @ ''T06:30:00Z'')
        [''03'', ''04'', ''05'', ''06'', ''07'', ''08'', ''09'', ''10'', ''11'', ''12''])"
    by (simp add: twelve_points_def point_def)
  note first = dashboard_trend_window [OF split len, of ?labels]
  have cov_window: "map (\<lambda>t. get_or (tp_coverage t) 0) (drop 2 twelve_points) = replicate 10 70"
    and qual_window:
      "map (\<lambda>t. get_or (tp_quality_score t) 0) (drop 2 twelve_points) = replicate 10 60"
    by (simp_all add: twelve_points_def point_def get_or_def numeral_eq_Suc)
  have cov: "chart_coverage_trend twelve_points = replicate 10 70"
    using first [THEN conjunct2, THEN conjunct1] cov_window by (rule trans)
  have qual: "chart_quality_trend twelve_points = replicate 10 60"
    using first [THEN conjunct2, THEN conjunct2, THEN conjunct1] qual_window by (rule trans)
  have "\<exists>stamps. map tp_timestamp (drop 2 twelve_points) = map Some stamps \<and>
      ?labels = map (take 10) stamps"
    by (rule exI, rule conjI, rule stamps) simp
  with first [THEN conjunct2, THEN conjunct2, THEN conjunct2, THEN conjunct1]
  have labels: "trend_labels twelve_points = Inr ?labels" by (rule iffD2)
  note second = dashboard_trend_window [OF split' len', of "[]"]
  from second [THEN conjunct2, THEN conjunct2, THEN conjunct2, THEN conjunct2] bad
  have missing: "trend_labels (twelve_points @ [?bad]) = Inl (KeyError ''timestamp'')"
    by (rule mp)
  from split len labels cov qual missing show ?thesis
    by (intro conjI)
qed

section \<open>Dashboard Renderer: keys of the metrics snapshot\<close>

lemma key_error_KeyError [simp]: "key_error (KeyError k)"
  by (simp add: key_error_def)































lemma fill_template_length_16:
  "length slots = 16 \<Longrightarrow>
   fill_template mk 0 slots =
     mk 0 @ slots ! 0 @ mk 1 @ slots ! 1 @ mk 2 @ slots ! 2 @ mk 3 @ slots ! 3 @
     mk 4 @ slots ! 4 @ mk 5 @ slots ! 5 @ mk 6 @ slots ! 6 @ mk 7 @ slots ! 7 @
     mk 8 @ slots ! 8 @ mk 9 @ slots ! 9 @ mk 10 @ slots ! 10 @ mk 11 @ slots ! 11 @
     mk 12 @ slots ! 12 @ mk 13 @ slots ! 13 @ mk 14 @ slots ! 14 @ mk 15 @ slots ! 15 @
     mk 16"
  by (auto simp: length_Suc_conv numeral_eq_Suc)

lemma dashboard_html_charts:
  assumes "files w metrics_path = Some mtext" "json_load_metrics rd mtext = Some mf"
    "files w trend_path = Some ttext" "json_load_trends env ttext = Some trends"
    and "dashboard_html env rd metrics_path trend_path w = Inr html"
  shows "\<exists>labels slots. trend_labels trends = Inr labels \<and> length slots = 16 \<and>
     html = fill_template (markup rd) 0 slots \<and>
     slots ! 12 = dumps_labels rd labels \<and>
     slots ! 13 = dumps_numbers rd (chart_coverage_trend trends) \<and>
     slots ! 14 = dumps_labels rd labels \<and>
     slots ! 15 = dumps_numbers rd (chart_quality_trend trends)"
proof -
  from assms(1-4) have loads:
    "and_then (open_read w metrics_path) (load_metrics rd) = Inr mf"
    "and_then (open_read w trend_path) (json_load env) = Inr trends"
    by (simp_all add: open_read_def load_metrics_def json_load_def)
  from assms(5) obtain avg overall files_total flaky labels slots where
    labels: "trend_labels trends = Inr labels"
    and slots: "template_fields env rd mf avg overall files_total flaky labels
        (chart_coverage_trend trends) (chart_quality_trend trends) = Inr slots"
    and html: "html = fill_template (markup rd) 0 slots"
    unfolding dashboard_html_def loads and_then_Inr and_then_Inr_iff by blast
  from slots have "length slots = 16 \<and>
     slots ! 12 = dumps_labels rd labels \<and>
     slots ! 13 = dumps_numbers rd (chart_coverage_trend trends) \<and>
     slots ! 14 = dumps_labels rd labels \<and>
     slots ! 15 = dumps_numbers rd (chart_quality_trend trends)"
    unfolding template_fields_def and_then_Inr_iff by auto
  with labels html show ?thesis by blast
qed










section \<open>Summarizer: the statistics of the report\<close>

lemma recent_nonempty: "trends \<noteq> [] \<Longrightarrow> recent trends \<noteq> []"
  by (cases trends) (simp_all add: recent_def slice_last_def)

lemma avg_coverage_mean:
  "trends \<noteq> [] \<Longrightarrow>
   avg_coverage trends =
     Inr (sum_list (map (\<lambda>t. get_or (tp_coverage t) 0) (recent trends)) /
          of_nat (length (recent trends)))"
  using recent_nonempty [of trends] by (simp add: avg_coverage_def true_div_def)

lemma avg_quality_mean:
  "trends \<noteq> [] \<Longrightarrow>
   avg_quality trends =
     Inr (sum_list (map (\<lambda>t. get_or (tp_quality_score t) 0) (recent trends)) /
          of_nat (length (recent trends)))"
  using recent_nonempty [of trends] by (simp add: avg_quality_def true_div_def)

lemma max_flaky_Max:
  "trends \<noteq> [] \<Longrightarrow>
   max_flaky trends = Inr (Max (set (map (\<lambda>t. get_or (tp_flaky_count t) 0) (recent trends))))"
  using recent_nonempty [of trends] by (simp add: max_flaky_def py_max_nonempty)

lemma coverage_trend_delta:
  "2 \<le> length trends \<Longrightarrow>
   coverage_trend trends =
     Inr (get_or (tp_coverage (last trends)) 0 -
          get_or (tp_coverage (trends ! (length trends - 2))) 0)"
proof -
  assume len: "2 \<le> length trends"
  then have ne: "trends \<noteq> []" by auto
  show ?thesis
    by (simp add: coverage_trend_def index_from_end_last [OF ne] index_from_end_2 [OF len])
qed

lemma quality_trend_delta:
  "2 \<le> length trends \<Longrightarrow>
   quality_trend trends =
     Inr (get_or (tp_quality_score (last trends)) 0 -
          get_or (tp_quality_score (trends ! (length trends - 2))) 0)"
proof -
  assume len: "2 \<le> length trends"
  then have ne: "trends \<noteq> []" by auto
  show ?thesis
    by (simp add: quality_trend_def index_from_end_last [OF ne] index_from_end_2 [OF len])
qed

lemma summary_text_total:
  assumes "2 \<le> length trends"
  shows "\<exists>avg_cov avg_qual max_fl cov_trend qual_trend.
     avg_coverage trends = Inr avg_cov \<and> avg_quality trends = Inr avg_qual \<and>
     max_flaky trends = Inr max_fl \<and> coverage_trend trends = Inr cov_trend \<and>
     quality_trend trends = Inr qual_trend \<and>
     summary_text generated trends =
       Inr (summary_head generated avg_cov avg_qual max_fl cov_trend qual_trend (last trends) @
            concat (recommendations avg_cov avg_qual max_fl cov_trend qual_trend))"
proof -
  from assms have ne: "trends \<noteq> []" by auto
  show ?thesis
    by (simp add: summary_text_def avg_coverage_mean [OF ne] avg_quality_mean [OF ne]
        max_flaky_Max [OF ne] coverage_trend_delta [OF assms] quality_trend_delta [OF assms]
        index_from_end_last [OF ne])
qed





lemma fix_flaky_line_inj: "fix_flaky_line n = fix_flaky_line m \<Longrightarrow> n = m"
  by (simp add: fix_flaky_line_def str_int_inj)




section \<open>Trend Visualizer: the order of effects\<close>


lemma mkdir_parents_rest [simp]:
  "files (mkdir_parents p w) = files w" "stdout (mkdir_parents p w) = stdout w"
  by (simp_all add: mkdir_parents_def)

lemma dirs_print [simp]: "dirs (print line w) = dirs w"
  by (simp add: print_def)

lemma dirs_write_file [simp]: "dirs (write_file path text w) = dirs w"
  by (simp add: write_file_def)





section \<open>Trend Visualizer: a run without matplotlib\<close>

lemma parse_timestamp_error:
  "parse_timestamp env t = Inl e \<Longrightarrow> e = KeyError ''timestamp'' \<or> e = ValueError"
  by (auto simp: parse_timestamp_def subscript_def split: option.splits)

lemma generate_summary_stats_no_error:
  "fst (generate_summary_stats env trends output_dir w) = Inr ()"
proof (cases "length trends < 2")
  case True
  then show ?thesis by (simp add: generate_summary_stats_def)
next
  case False
  then have "2 \<le> length trends" by simp
  from summary_text_total [OF this, of "now env"] False show ?thesis
    by (auto simp: generate_summary_stats_def)
qed

lemma visualize_trends_errors:
  assumes "fst (visualize_trends env trend_file output_dir w) = Inl e"
  shows "e \<in> {FileNotFoundError, JSONDecodeError, KeyError ''timestamp'', ValueError} \<or>
         (\<exists>ts cs qs ns fs. plot_figure env ts cs qs ns fs = Inl e)"
proof -
  let ?w1 = "mkdir_parents output_dir w"
  show ?thesis
  proof (cases "and_then (open_read ?w1 trend_file) (json_load env)")
    case (Inl e')
    with assms have "e' = e" by (simp add: visualize_trends_def)
    with Inl show ?thesis
      by (auto simp: and_then_def open_read_def json_load_def split: sum.splits option.splits)
  next
    case (Inr trends)
    show ?thesis
    proof (cases "trends = []")
      case True
      with Inr assms show ?thesis by (simp add: visualize_trends_def)
    next
      case False
      show ?thesis
      proof (cases "comprehension (parse_timestamp env) trends")
        case (Inl e')
        with Inr False assms have "e' = e" by (simp add: visualize_trends_def)
        with Inl comprehension_error parse_timestamp_error show ?thesis
          by fastforce
      next
        case stamps: (Inr timestamps)
        show ?thesis
        proof (cases "plot_figure env timestamps (map (\<lambda>t. get_or (tp_coverage t) 0) trends)
            (map (\<lambda>t. get_or (tp_quality_score t) 0) trends)
            (map (\<lambda>t. get_or (tp_test_count t) 0) trends)
            (map (\<lambda>t. get_or (tp_flaky_count t) 0) trends)")
          case (Inl e')
          with Inr False stamps assms have "e' = e"
            by (simp add: visualize_trends_def Let_def)
          with Inl show ?thesis by blast
        next
          case (Inr png)
          with \<open>and_then (open_read ?w1 trend_file) (json_load env) = Inr trends\<close>
            False stamps assms generate_summary_stats_no_error
          show ?thesis
            by (simp add: visualize_trends_def Let_def)
        qed
      qed
    qed
  qed
qed

lemma visualize_trends_ImportError:
  "fst (visualize_trends env trend_file output_dir w) = Inl ImportError \<Longrightarrow>
   \<exists>ts cs qs ns fs. plot_figure env ts cs qs ns fs = Inl ImportError"
  using visualize_trends_errors [of env trend_file output_dir w ImportError] by auto

lemma handler_entered:
  assumes "has_matplotlib env"
    and "visualize_trends env trend_file output_dir w = (Inl ImportError, w1)"
  shows "visualize_test_trends env [script, trend_file, output_dir] w =
           finish (text_summary_only env trend_file output_dir w1)"
  using assms by (simp add: visualize_test_trends_def)

text \<open>
  What the handler does when it is entered, here because a matplotlib call raises the
  import error after the import itself succeeded: the warning and the text summary.
\<close>

lemma handler_output:
  "\<exists>summary.
     summary_text (now example_env) two_points = Inr summary \<and>
     visualize_test_trends (example_env\<lparr>plot_figure := \<lambda>ts cs qs ns fs. Inl ImportError\<rparr>)
       [''visualize_test_trends.py'', ''trends.json''] example_world =
     (Finished,
      \<lparr>dirs = {''test_metrics/visualizations'', ''test_metrics''},
       files = (files example_world)
         (''test_metrics/visualizations/test_quality_summary.md'' \<mapsto> summary),
       stdout =
         [''Warning: matplotlib not installed. Install with: pip install matplotlib'',
          ''Generating text summary only...'',
          ''Summary report saved to: test_metrics/visualizations/test_quality_summary.md'']\<rparr>)"
proof -
  have len: "2 \<le> length two_points" by (simp add: two_points_def)
  from summary_text_total [OF len, of "now example_env"]
  obtain summary where summary: "summary_text (now example_env) two_points = Inr summary"
    by blast
  have mk: "mkdir_parents ''test_metrics/visualizations'' w =
      w\<lparr>dirs := dirs w \<union> {''test_metrics/visualizations'', ''test_metrics''}\<rparr>" for w
    by (simp add: mkdir_parents_def ancestors_def upt_rec)
  have stamps: "\<exists>ts. comprehension (parse_timestamp
      (example_env\<lparr>plot_figure := \<lambda>ts cs qs ns fs. Inl ImportError\<rparr>)) two_points = Inr ts"
    by (simp add: two_points_def point_def parse_timestamp_def subscript_def example_env_def)
  have "now (example_env\<lparr>plot_figure := \<lambda>ts cs qs ns fs. Inl ImportError\<rparr>) = now example_env"
    by simp
  with summary len stamps show ?thesis
    by (auto simp: visualize_test_trends_def visualize_trends_def text_summary_only_def
        generate_summary_stats_def finish_def mk open_read_def json_load_def print_def
        write_file_def summary_file_def path_join_def example_env_def example_world_def Let_def)
qed

lemma missing_matplotlib_aborts_always:
  "\<not> has_matplotlib env \<Longrightarrow> visualize_test_trends env argv w = (Traceback ImportError, w)"
  by (simp add: visualize_test_trends_def)

text \<open>
  C1. The script run without matplotlib, on a trend file with two points: the import at
  the top of the module fails before the main block is reached, so the run ends with the
  traceback of the import error, prints no warning and writes no summary. The handler
  that would produce the text summary is never entered.
\<close>

theorem missing_matplotlib_traceback:
  "visualize_test_trends (example_env\<lparr>has_matplotlib := False\<rparr>)
     [''visualize_test_trends.py'', ''trends.json''] example_world =
     (Traceback ImportError, example_world)"
  by (simp add: visualize_test_trends_def)

end
